theory Spec2Isabelle
  imports Complex_Main "HOL-Library.Sublist"
begin

section \<open>Python strings\<close>

text \<open>
  The processor of \<^verbatim>\<open>email_llm_processor.py\<close> works on Python \<^verbatim>\<open>str\<close> values. They are
  modelled as \<^typ>\<open>string\<close>; one \<^typ>\<open>char\<close> stands for one code point in the range
  U+0000..U+00FF, so that lengths, indices and slices count what Python counts.
  Indices are \<^typ>\<open>int\<close>, because \<^verbatim>\<open>str.find\<close> answers \<^verbatim>\<open>-1\<close> when nothing is found.
\<close>

text \<open>\<^verbatim>\<open>str.isspace\<close> on one character: the code points below U+0100 that Python strips.\<close>

definition isspace :: "char \<Rightarrow> bool" where
  "isspace c =
     (let n = (of_char c :: nat)
      in (9 \<le> n \<and> n \<le> 13) \<or> (28 \<le> n \<and> n \<le> 32) \<or> n = 133 \<or> n = 160)"

text \<open>\<^verbatim>\<open>s.strip()\<close>\<close>

definition py_strip :: "string \<Rightarrow> string" where
  "py_strip s = rev (dropWhile isspace (rev (dropWhile isspace s)))"

text \<open>\<^verbatim>\<open>s.find(sub)\<close>: the lowest index at which \<^verbatim>\<open>sub\<close> starts, \<^verbatim>\<open>-1\<close> when there is none.\<close>

fun find_from :: "string \<Rightarrow> string \<Rightarrow> int \<Rightarrow> int" where
  "find_from sub [] i = (if sub = [] then i else - 1)"
| "find_from sub (c # cs) i = (if prefix sub (c # cs) then i else find_from sub cs (i + 1))"

definition py_find :: "string \<Rightarrow> string \<Rightarrow> int" where
  "py_find sub s = find_from sub s 0"

text \<open>\<^verbatim>\<open>sub in s\<close>\<close>

definition py_in :: "string \<Rightarrow> string \<Rightarrow> bool" where
  "py_in sub s = (py_find sub s \<noteq> - 1)"

text \<open>Python turns a slice bound into a position between \<^verbatim>\<open>0\<close> and \<^verbatim>\<open>len(s)\<close>:
  a negative bound counts from the end, and every bound is clamped.\<close>

definition clamp_index :: "nat \<Rightarrow> int \<Rightarrow> nat" where
  "clamp_index n i = (if i < 0 then nat (max 0 (int n + i)) else min n (nat i))"

text \<open>\<^verbatim>\<open>s[a:b]\<close>\<close>

definition py_slice :: "string \<Rightarrow> int \<Rightarrow> int \<Rightarrow> string" where
  "py_slice s a b =
     (let i = clamp_index (length s) a; j = clamp_index (length s) b
      in take (j - i) (drop i s))"

text \<open>\<^verbatim>\<open>s.find(sub, start)\<close>\<close>

definition py_find_at :: "string \<Rightarrow> string \<Rightarrow> int \<Rightarrow> int" where
  "py_find_at sub s start =
     (if int (length s) < start then - 1
      else (let i = clamp_index (length s) start in find_from sub (drop i s) (int i)))"

text \<open>\<^verbatim>\<open>s.rfind(sub)\<close>: the highest index at which \<^verbatim>\<open>sub\<close> starts, \<^verbatim>\<open>-1\<close> when there is none.\<close>

fun rfind_from :: "string \<Rightarrow> string \<Rightarrow> int \<Rightarrow> int \<Rightarrow> int" where
  "rfind_from sub [] i best = (if sub = [] then i else best)"
| "rfind_from sub (c # cs) i best =
     rfind_from sub cs (i + 1) (if prefix sub (c # cs) then i else best)"

definition py_rfind :: "string \<Rightarrow> string \<Rightarrow> int" where
  "py_rfind sub s = rfind_from sub s 0 (- 1)"

text \<open>\<^verbatim>\<open>s.split(sep)\<close> for a non-empty separator: the pieces between the occurrences of
  \<^verbatim>\<open>sep\<close>, found from the left and not overlapping. (Python raises \<^verbatim>\<open>ValueError\<close> for an
  empty separator; every separator of the processor is a non-empty literal.)\<close>

function py_split :: "string \<Rightarrow> string \<Rightarrow> string list" where
  "py_split sep s =
     (if sep = [] \<or> py_find sep s < 0 then [s]
      else take (nat (py_find sep s)) s
             # py_split sep (drop (nat (py_find sep s) + length sep) s))"
  by pat_completeness auto
termination
proof (relation "measure (\<lambda>(sep, s). length s)")
  show "wf (measure (\<lambda>(sep, s). length s))" by simp
next
  fix sep s :: string
  assume a: "\<not> (sep = [] \<or> py_find sep s < 0)"
  then have "s \<noteq> []" by (auto simp: py_find_def)
  with a show "((sep, drop (nat (py_find sep s) + length sep) s), (sep, s))
                 \<in> measure (\<lambda>(sep, s). length s)"
    by simp
qed

declare py_split.simps [simp del]

text \<open>\<^verbatim>\<open>s.replace(old, new)\<close> for a non-empty \<^verbatim>\<open>old\<close>; the counter skips the rest of an
  occurrence that has just been replaced.\<close>

fun replace_from :: "string \<Rightarrow> string \<Rightarrow> nat \<Rightarrow> string \<Rightarrow> string" where
  "replace_from old new k [] = []"
| "replace_from old new (Suc k) (c # cs) = replace_from old new k cs"
| "replace_from old new 0 (c # cs) =
     (if prefix old (c # cs) then new @ replace_from old new (length old - 1) cs
      else c # replace_from old new 0 cs)"

definition py_replace :: "string \<Rightarrow> string \<Rightarrow> string \<Rightarrow> string" where
  "py_replace old new s = replace_from old new 0 s"

text \<open>\<^verbatim>\<open>str(n)\<close> for a non-negative and for any integer.\<close>

fun str_of_nat :: "nat \<Rightarrow> string" where
  "str_of_nat n =
     (if n < 10 then [char_of (48 + n)]
      else str_of_nat (n div 10) @ [char_of (48 + n mod 10)])"

declare str_of_nat.simps [simp del]


section \<open>Exceptions\<close>

text \<open>The exceptions the processor can meet. All of them are subclasses of Python's
  \<^verbatim>\<open>Exception\<close>; \<open>Exception msg\<close> is the plain \<^verbatim>\<open>Exception(msg)\<close> that the processor raises
  itself.\<close>

datatype exn =
    JSONDecodeError string
  | IndexError
  | KeyError
  | TypeError
  | AttributeError
  | ValueError string
  | RecursionError
  | OSError
  | RequestException
  | HTTPError int
  | Exception string

text \<open>\<^verbatim>\<open>xs[i]\<close> for a non-negative literal index.\<close>

definition py_index :: "'a list \<Rightarrow> nat \<Rightarrow> exn + 'a" where
  "py_index xs i = (if i < length xs then Inr (xs ! i) else Inl IndexError)"

section \<open>The record parser\<close>

text \<open>One parsed email: the dictionary with the keys \<^verbatim>\<open>title\<close>, \<^verbatim>\<open>sender\<close>, \<^verbatim>\<open>date\<close> and
  \<^verbatim>\<open>text\<close> that \<^verbatim>\<open>_parse_extracted_file\<close> builds.\<close>

record email =
  email_title :: string
  email_sender :: string
  email_date :: string
  email_text :: string

definition marker :: string where
  "marker = replicate 50 (CHR ''='')"

text \<open>\<^verbatim>\<open>section.split(label)[1].split('\n')[0] if label in section else default\<close>\<close>

definition label_value :: "string \<Rightarrow> string \<Rightarrow> string \<Rightarrow> exn + string" where
  "label_value label dflt sec =
     (if py_in label sec
      then (case py_index (py_split label sec) 1 of
              Inl e \<Rightarrow> Inl e
            | Inr rest \<Rightarrow> py_index (py_split ''\<newline>'' rest) 0)
      else Inr dflt)"

text \<open>The \<^verbatim>\<open>text\<close> of a section (lines 288 to 297).\<close>

definition content_text :: "string \<Rightarrow> string" where
  "content_text sec =
     (if py_in ''Content:'' sec
      then (let content_start = py_find ''Content:'' sec + 8;
                content_end = py_find marker sec;
                content_end = (if content_end = - 1 then int (length sec) else content_end)
            in py_strip (py_slice sec content_start content_end))
      else ''No content available'')"

text \<open>The body of the loop for one section that is not blank: the dictionary built for
  it, or the exception an index raises.\<close>

definition parse_section :: "string \<Rightarrow> exn + email" where
  "parse_section sec =
     (case label_value ''Title: '' ''No Subject'' sec of
        Inl e \<Rightarrow> Inl e
      | Inr title_match \<Rightarrow>
     (case label_value ''From: '' ''Unknown Sender'' sec of
        Inl e \<Rightarrow> Inl e
      | Inr sender_match \<Rightarrow>
     (case label_value ''Date: '' ''Unknown Date'' sec of
        Inl e \<Rightarrow> Inl e
      | Inr date_match \<Rightarrow>
          Inr \<lparr> email_title = py_strip title_match,
                email_sender = py_strip sender_match,
                email_date = py_strip date_match,
                email_text = content_text sec \<rparr>)))"

text \<open>The loop over the sections. \<^verbatim>\<open>emails\<close> is filled in place, so an exception in one
  section leaves the records collected so far: the loop returns the exception, if any,
  with the list.\<close>

fun parse_sections :: "email list \<Rightarrow> string list \<Rightarrow> exn option \<times> email list" where
  "parse_sections emails [] = (None, emails)"
| "parse_sections emails (sec # secs) =
     (if py_strip sec = [] then parse_sections emails secs
      else (case parse_section sec of
              Inl e \<Rightarrow> (Some e, emails)
            | Inr current_email \<Rightarrow>
                if email_title current_email \<noteq> [] \<and> email_text current_email \<noteq> []
                then parse_sections (emails @ [current_email]) secs
                else parse_sections emails secs))"

text \<open>The parse of the text of a file: \<^verbatim>\<open>content.split('EMAIL ')[1:]\<close>, then the loop.\<close>

definition parse_content :: "string \<Rightarrow> exn option \<times> email list" where
  "parse_content content = parse_sections [] (tl (py_split ''EMAIL '' content))"

text \<open>\<^verbatim>\<open>_parse_extracted_file\<close>. The file system maps a path to the text of the file;
  \<open>None\<close> is a file that \<^verbatim>\<open>open\<close> or \<^verbatim>\<open>read\<close> cannot deliver. The \<^verbatim>\<open>except\<close> clause
  prints and the function returns the list whatever happened.\<close>

definition parse_extracted_file :: "(string \<Rightarrow> string option) \<Rightarrow> string \<Rightarrow> email list" where
  "parse_extracted_file fs file_path =
     (case fs file_path of
        None \<Rightarrow> []
      | Some content \<Rightarrow> snd (parse_content content))"

text \<open>The sections that the loop appends: those that are not blank and whose dictionary
  has a non-empty \<^verbatim>\<open>title\<close> and a non-empty \<^verbatim>\<open>text\<close> (line 299).\<close>

definition kept :: "string \<Rightarrow> bool" where
  "kept sec =
     (py_strip sec \<noteq> [] \<and>
      (case parse_section sec of
         Inl e \<Rightarrow> False
       | Inr current_email \<Rightarrow> email_title current_email \<noteq> [] \<and> email_text current_email \<noteq> []))"

section \<open>Properties of the record parser\<close>

lemma py_split_nonempty: "py_split sep s \<noteq> []"
  by (subst py_split.simps) simp

lemma find_from_ge: "0 \<le> k \<Longrightarrow> find_from sub t k = - 1 \<or> k \<le> find_from sub t k"
proof (induction t arbitrary: k)
  case Nil
  then show ?case by simp
next
  case (Cons c cs)
  from Cons.IH [of "k + 1"] Cons.prems show ?case by auto
qed

lemma py_split_in: "py_in sep s \<Longrightarrow> sep \<noteq> [] \<Longrightarrow> 1 < length (py_split sep s)"
proof -
  assume a: "py_in sep s" and b: "sep \<noteq> []"
  from find_from_ge [of 0 sep s] a have "\<not> py_find sep s < 0"
    by (auto simp: py_in_def py_find_def)
  with b show ?thesis
    using py_split_nonempty [of sep "drop (nat (py_find sep s) + length sep) s"]
    by (subst py_split.simps) (simp add: Suc_lessI)
qed

lemma label_value_ok:
  assumes "label \<noteq> []"
  shows "label_value label dflt sec =
           Inr (if py_in label sec
                then hd (py_split ''\<newline>'' (py_split label sec ! 1)) else dflt)"
proof (cases "py_in label sec")
  case True
  from py_split_in [OF True assms] have "py_index (py_split label sec) 1 = Inr (py_split label sec ! 1)"
    by (simp add: py_index_def)
  moreover have "py_index xs 0 = Inr (hd xs)" if "xs \<noteq> []" for xs :: "string list"
    using that by (cases xs) (simp_all add: py_index_def)
  ultimately show ?thesis
    using True py_split_nonempty by (simp add: label_value_def)
next
  case False
  then show ?thesis by (simp add: label_value_def)
qed

lemma parse_section_ok: "\<exists>e. parse_section sec = Inr e"
  by (simp add: parse_section_def label_value_ok)

lemma parse_sections_filter:
  "fst (parse_sections emails secs) = None \<and>
   map Inr (snd (parse_sections emails secs)) = map Inr emails @ map parse_section (filter kept secs)"
proof (induction secs arbitrary: emails)
  case Nil
  then show ?case by simp
next
  case (Cons sec secs)
  obtain e where e: "parse_section sec = Inr e"
    using parse_section_ok by blast
  show ?case
    by (simp add: Cons.IH e kept_def)
qed

text \<open>C6, as the code has it. The parse of a text never stops at a section: the loop ends
  without an exception, and the records it returns are those of the sections that are
  not blank and have both a non-empty title and a non-empty content, in the order of the
  text. A section is dropped when either of the two is empty, not only when both are.\<close>

theorem parse_content_keeps_sections_with_title_and_text:
  "fst (parse_content content) = None \<and>
   map Inr (snd (parse_content content))
     = map parse_section (filter kept (tl (py_split ''EMAIL '' content)))"
  using parse_sections_filter [of "[]" "tl (py_split ''EMAIL '' content)"]
  by (simp add: parse_content_def)

text \<open>An email with a subject and an empty body, in the layout that
  \<^verbatim>\<open>create_combined_summary.py\<close> writes.\<close>

definition empty_body_section :: string where
  "empty_body_section =
     ''1\<newline>'' @ replicate 30 (CHR ''-'')
     @ ''\<newline>Title: Hello\<newline>From: a@b.c\<newline>Date: Mon\<newline>Content:\<newline>\<newline>''
     @ replicate 60 (CHR ''='') @ ''\<newline>''"

text \<open>C6, as the claim states it, fails: the section below has the usable title
  \<^verbatim>\<open>Hello\<close> and is dropped all the same, because its content is empty.\<close>

theorem section_with_title_only_is_dropped:
  "parse_section empty_body_section
     = Inr \<lparr> email_title = ''Hello'', email_sender = ''a@b.c'', email_date = ''Mon'',
             email_text = [] \<rparr>
   \<and> parse_content (''EMAIL '' @ empty_body_section) = (None, [])"
  by code_simp

section \<open>The prompt builder\<close>

text \<open>\<^verbatim>\<open>sep.join(xs)\<close>\<close>

fun py_join :: "string \<Rightarrow> string list \<Rightarrow> string" where
  "py_join sep [] = []"
| "py_join sep [x] = x"
| "py_join sep (x # y # ys) = x @ sep @ py_join sep (y # ys)"

text \<open>The block of one email (lines 124 to 129); \<open>i\<close> is its number, counted from 1.\<close>

definition email_summary :: "nat \<Rightarrow> email \<Rightarrow> string" where
  "email_summary i email =
     ''\<newline>Email '' @ str_of_nat i @ '':\<newline>- Subject: '' @ email_title email
     @ ''\<newline>- From: '' @ email_sender email
     @ ''\<newline>- Date: '' @ email_date email
     @ ''\<newline>- Content: '' @ py_slice (email_text email) 0 500 @ ''...''"

text \<open>The loop of lines 122 to 130: \<^verbatim>\<open>enumerate(emails, 1)\<close>.\<close>

fun email_summaries :: "nat \<Rightarrow> email list \<Rightarrow> string list" where
  "email_summaries i [] = []"
| "email_summaries i (email # emails) = email_summary i email # email_summaries (Suc i) emails"

text \<open>The fixed text that follows the blocks (lines 138 to 179).\<close>

definition prompt_instructions :: string where
  \<open>prompt_instructions = concat
    [''\<newline>'',
     ''\<newline>'',
     ''IMPORTANT: Respond with ONLY valid JSON. Do not include any markdown formatting, code blocks, or additional text.\<newline>'',
     ''\<newline>'',
     ''{\<newline>'',
     ''    "comprehensive_summary": "A 3-4 paragraph summary of all emails received, highlighting main themes and patterns",\<newline>'',
     ''    "high_priority_emails": [\<newline>'',
     ''        {\<newline>'',
     ''            "email_number": 1,\<newline>'',
     ''            "subject": "Email subject",\<newline>'',
     ''            "sender": "Sender email",\<newline>'',
     ''            "priority_level": "high/medium",\<newline>'',
     ''            "reason_for_priority": "Why this email is important",\<newline>'',
     ''            "key_points": ["Point 1", "Point 2", "Point 3"]\<newline>'',
     ''        }\<newline>'',
     ''    ],\<newline>'',
     ''    "action_items": [\<newline>'',
     ''        {\<newline>'',
     ''            "action": "What needs to be done",\<newline>'',
     ''            "priority": "high/medium/low",\<newline>'',
     ''            "deadline": "When it needs to be done (if mentioned)",\<newline>'',
     ''            "source_email": "Which email this action item came from"\<newline>'',
     ''        }\<newline>'',
     ''    ],\<newline>'',
     ''    "email_categories": {\<newline>'',
     ''        "work": 0,\<newline>'',
     ''        "personal": 0, \<newline>'',
     ''        "marketing": 0,\<newline>'',
     ''        "notifications": 0,\<newline>'',
     ''        "other": 0\<newline>'',
     ''    },\<newline>'',
     ''    "processing_notes": "Any additional insights or observations about the email batch"\<newline>'',
     ''}\<newline>'',
     ''\<newline>'',
     ''Focus on:\<newline>'',
     ''1. Identifying truly important emails that require immediate attention\<newline>'',
     ''2. Extracting all actionable items and tasks\<newline>'',
     ''3. Categorizing emails by type\<newline>'',
     ''4. Providing a comprehensive overview of the email batch\<newline>'',
     ''5. Highlighting urgent matters and deadlines\<newline>'',
     ''\<newline>'',
     ''Remember: Return ONLY the JSON object, no additional formatting or text.\<newline>'']\<close>

text \<open>\<^verbatim>\<open>_create_batch_analysis_prompt\<close>\<close>

definition create_batch_analysis_prompt :: "email list \<Rightarrow> string" where
  "create_batch_analysis_prompt emails =
     (let all_emails_text = py_join ''\<newline>'' (email_summaries 1 emails)
      in ''\<newline>Please analyze the following '' @ str_of_nat (length emails)
         @ '' emails and provide a comprehensive summary. Focus on identifying high-priority emails and actionable items.\<newline>\<newline>''
         @ all_emails_text @ prompt_instructions)"

section \<open>Properties of the prompt builder\<close>

lemma py_slice_take: "py_slice s 0 (int n) = take n s"
  by (simp add: py_slice_def clamp_index_def min_def)

lemma py_join_summaries:
  "i < length emails \<Longrightarrow>
   \<exists>pre post. py_join sep (email_summaries k emails)
                 = pre @ email_summary (k + i) (emails ! i) @ post"
proof (induction emails arbitrary: i k)
  case Nil
  then show ?case by simp
next
  case (Cons e es)
  show ?case
  proof (cases i)
    case 0
    show ?thesis
    proof (cases es)
      case Nil
      with 0 have "py_join sep (email_summaries k (e # es))
                     = [] @ email_summary (k + i) ((e # es) ! i) @ []" by simp
      then show ?thesis by blast
    next
      case (Cons e' es')
      with 0 have "py_join sep (email_summaries k (e # es))
                     = [] @ email_summary (k + i) ((e # es) ! i)
                       @ (sep @ py_join sep (email_summaries (Suc k) es))" by simp
      then show ?thesis by blast
    qed
  next
    case (Suc j)
    with Cons.prems have j: "j < length es" by simp
    from Cons.IH [OF j, of "Suc k"] obtain pre post where
      pp: "py_join sep (email_summaries (Suc k) es)
             = pre @ email_summary (Suc k + j) (es ! j) @ post" by blast
    from j obtain e' es' where es: "es = e' # es'" by (cases es) auto
    have "py_join sep (email_summaries k (e # es))
            = email_summary k e @ sep @ py_join sep (email_summaries (Suc k) es)"
      by (simp add: es)
    with pp Suc have "py_join sep (email_summaries k (e # es))
            = (email_summary k e @ sep @ pre) @ email_summary (k + i) ((e # es) ! i) @ post"
      by simp
    then show ?thesis by blast
  qed
qed

text \<open>C7, as the code has it. The prompt holds, for the email at every position \<open>i\<close>, its
  block with the number \<open>i + 1\<close>, and the content line of the block is the first 500
  characters of the content followed by the three dots, whatever the length of the
  content.\<close>

theorem prompt_content_cut_at_500_and_always_marked:
  assumes "i < length emails"
  shows "\<exists>pre post hdr.
           create_batch_analysis_prompt emails
             = pre @ email_summary (i + 1) (emails ! i) @ post
           \<and> email_summary (i + 1) (emails ! i)
             = hdr @ ''- Content: '' @ take 500 (email_text (emails ! i)) @ ''...''"
proof -
  from py_join_summaries [OF assms, of "''\<newline>''" 1] obtain pre post where
    "py_join ''\<newline>'' (email_summaries 1 emails)
       = pre @ email_summary (i + 1) (emails ! i) @ post"
    by (auto simp: add.commute)
  then have "create_batch_analysis_prompt emails
      = (''\<newline>Please analyze the following '' @ str_of_nat (length emails)
         @ '' emails and provide a comprehensive summary. Focus on identifying high-priority emails and actionable items.\<newline>\<newline>''
         @ pre) @ email_summary (i + 1) (emails ! i) @ (post @ prompt_instructions)"
    by (simp add: create_batch_analysis_prompt_def)
  moreover have "email_summary (i + 1) (emails ! i)
      = (''\<newline>Email '' @ str_of_nat (i + 1) @ '':\<newline>- Subject: '' @ email_title (emails ! i)
         @ ''\<newline>- From: '' @ email_sender (emails ! i)
         @ ''\<newline>- Date: '' @ email_date (emails ! i) @ ''\<newline>'')
        @ ''- Content: '' @ take 500 (email_text (emails ! i)) @ ''...''"
    using py_slice_take [of "email_text (emails ! i)" 500]
    by (simp add: email_summary_def)
  ultimately show ?thesis by blast
qed

definition short_email :: email where
  "short_email = \<lparr> email_title = ''Hello'', email_sender = ''a@b.c'', email_date = ''Mon'',
                    email_text = ''Hi'' \<rparr>"

theorem prompt_content_cut_at_500_and_always_marked_witness:
  "\<exists>pre post hdr.
     create_batch_analysis_prompt [short_email] = pre @ email_summary 1 short_email @ post
     \<and> email_summary 1 short_email = hdr @ ''- Content: '' @ ''Hi'' @ ''...''"
  using prompt_content_cut_at_500_and_always_marked [of 0 "[short_email]"]
  by (simp add: short_email_def)

text \<open>C7, as the claim states it, fails: a content of two characters is written with
  the three dots after it.\<close>

theorem short_content_is_marked_too:
  "email_summary 1 short_email
     = ''\<newline>Email 1:\<newline>- Subject: Hello\<newline>- From: a@b.c\<newline>- Date: Mon\<newline>- Content: Hi...''
   \<and> create_batch_analysis_prompt [short_email]
     = ''\<newline>Please analyze the following 1 emails and provide a comprehensive summary. Focus on identifying high-priority emails and actionable items.\<newline>\<newline>''
       @ email_summary 1 short_email @ prompt_instructions"
  by code_simp

section \<open>Values\<close>

text \<open>The values that \<^verbatim>\<open>json.loads\<close> builds and that the analysis dictionaries hold.
  A Python \<^verbatim>\<open>float\<close> is idealised as a real number or one of the three special values;
  a \<^verbatim>\<open>dict\<close> is the list of its items in insertion order.\<close>

datatype pyfloat = Finite real | PosInf | NegInf | NaN

datatype json =
    JNull
  | JBool bool
  | JInt int
  | JFloat pyfloat
  | JStr string
  | JArr "json list"
  | JObj "(string \<times> json) list"

text \<open>\<^verbatim>\<open>d.get(key, default)\<close> and \<^verbatim>\<open>key in d\<close> on the items of a dictionary.\<close>

definition py_get :: "(string \<times> json) list \<Rightarrow> string \<Rightarrow> json \<Rightarrow> json" where
  "py_get d key dflt = (case map_of d key of None \<Rightarrow> dflt | Some v \<Rightarrow> v)"


text \<open>\<^verbatim>\<open>d[key] = v\<close>: a key that is there keeps its place.\<close>

fun dict_set :: "(string \<times> json) list \<Rightarrow> string \<Rightarrow> json \<Rightarrow> (string \<times> json) list" where
  "dict_set [] key v = [(key, v)]"
| "dict_set ((k, w) # d) key v = (if k = key then (k, v) # d else (k, w) # dict_set d key v)"

section \<open>The response parser\<close>

text \<open>\<^verbatim>\<open>json.loads\<close> belongs to Python's library, not to the repository. The parser takes
  it as the parameter \<open>loads\<close>: the decoded value, or the exception raised. The text of a
  \<^verbatim>\<open>JSONDecodeError\<close> is the argument of the constructor.\<close>

type_synonym loads = "string \<Rightarrow> exn + json"

text \<open>The dictionaries of lines 203 to 209, 233 to 239 and 249 to 255.\<close>

definition summary_dict :: "string \<Rightarrow> string \<Rightarrow> json" where
  "summary_dict summary notes =
     JObj [(''comprehensive_summary'', JStr summary),
           (''high_priority_emails'', JArr []),
           (''action_items'', JArr []),
           (''email_categories'', JObj []),
           (''processing_notes'', JStr notes)]"

text \<open>Lines 217 to 232: the text between the first two double quotes after the colon that
  follows the key, when all of them are found and the text is not blank. None of the
  calls can raise, so the inner \<^verbatim>\<open>except\<close> clause of line 240 is never entered.\<close>

definition extract_summary :: "string \<Rightarrow> string option" where
  "extract_summary response =
     (if py_in ''comprehensive_summary'' response
      then (let summary_start = py_find (CHR 0x22 # ''comprehensive_summary'' @ [CHR 0x22]) response
            in if summary_start \<noteq> - 1
               then (let colon_pos = py_find_at '':'' response summary_start
                     in if colon_pos \<noteq> - 1
                        then (let quote_start = py_find_at [CHR 0x22] response colon_pos
                              in if quote_start \<noteq> - 1
                                 then (let quote_end = py_find_at [CHR 0x22] response (quote_start + 1)
                                       in if quote_end \<noteq> - 1
                                          then (let summary = py_slice response (quote_start + 1) quote_end
                                                in if py_strip summary \<noteq> [] then Some summary else None)
                                          else None)
                                 else None)
                        else None)
               else None)
      else None)"

text \<open>The handler of \<^verbatim>\<open>json.JSONDecodeError\<close> (lines 211 to 255); \<open>e\<close> is the text of
  the exception and \<open>response\<close> the response as the \<^verbatim>\<open>try\<close> block left it.\<close>

definition decode_error_handler :: "string \<Rightarrow> string \<Rightarrow> json" where
  "decode_error_handler e response =
     (let notes = ''JSON parsing error: '' @ e @ ''. Using extracted summary instead.''
      in case extract_summary response of
           Some summary \<Rightarrow> summary_dict summary notes
         | None \<Rightarrow>
             (let summary = (if 200 < length response then py_slice response 0 200 @ ''...''
                             else response)
              in summary_dict
                   (if 1000 < length summary then py_slice summary 0 1000 @ ''...'' else summary)
                   notes))"

text \<open>Lines 187 and 188: the code fences are removed when \<^verbatim>\<open>```json\<close> occurs.\<close>

definition strip_fences :: "string \<Rightarrow> string" where
  "strip_fences response =
     (if py_in ''```json'' response
      then py_replace ''```'' [] (py_replace ''```json'' [] response)
      else response)"

text \<open>\<^verbatim>\<open>_parse_batch_response\<close>. Only \<^verbatim>\<open>json.JSONDecodeError\<close> is caught; any other
  exception of \<open>loads\<close> leaves the function.\<close>

definition parse_batch_response :: "loads \<Rightarrow> string \<Rightarrow> exn + json" where
  "parse_batch_response loads response0 =
     (let response = strip_fences response0
      in if py_in ''{'' response \<and> py_in ''}'' response
         then (let start = py_find ''{'' response;
                   end = py_rfind ''}'' response + 1;
                   json_str = py_strip (py_slice response start end)
               in case loads json_str of
                    Inr parsed \<Rightarrow> Inr parsed
                  | Inl (JSONDecodeError e) \<Rightarrow> Inr (decode_error_handler e response)
                  | Inl other \<Rightarrow> Inl other)
         else Inr (summary_dict
                     (if 500 < length response then py_slice response 0 500 @ ''...''
                      else response)
                     ''Response parsing failed''))"

text \<open>\<^verbatim>\<open>d.get(key)\<close> on a value that may or may not be a dictionary, for the statements
  about the result.\<close>

fun json_lookup :: "json \<Rightarrow> string \<Rightarrow> json option" where
  "json_lookup (JObj d) key = map_of d key"
| "json_lookup v key = None"

section \<open>A decoder for concrete inputs\<close>

text \<open>To evaluate the parser on a concrete response, \<open>loads\<close> needs a value. \<open>json_loads\<close>
  decodes the JSON grammar the way Python's decoder does: white space, the literals,
  integers and decimal numbers, strings with their escapes (an escape \<^verbatim>\<open>\uXXXX\<close> beyond
  U+00FF has no \<^typ>\<open>char\<close> and is not decoded), lists, and dictionaries in which a
  repeated key keeps its place and takes the last value. The text of the error is not
  Python's: it only ever reaches \<^verbatim>\<open>processing_notes\<close>. The fuel bounds the depth of the
  recursion; each call consumes a character, so twice the length is never used up.
  Every statement below that is not about a concrete input holds for all \<open>loads\<close>.\<close>

definition json_ws :: "char \<Rightarrow> bool" where
  "json_ws c = (c = CHR '' '' \<or> c = CHR 0x09 \<or> c = CHR 0x0A \<or> c = CHR 0x0D)"

definition skip_ws :: "string \<Rightarrow> string" where
  "skip_ws s = dropWhile json_ws s"

definition isdigit :: "char \<Rightarrow> bool" where
  "isdigit c = (48 \<le> (of_char c :: nat) \<and> (of_char c :: nat) \<le> 57)"

definition nat_of_digits :: "string \<Rightarrow> nat" where
  "nat_of_digits ds = foldl (\<lambda>n c. 10 * n + (of_char c - 48)) 0 ds"

definition hex_value :: "char \<Rightarrow> nat option" where
  "hex_value c =
     (let n = (of_char c :: nat)
      in if 48 \<le> n \<and> n \<le> 57 then Some (n - 48)
         else if 65 \<le> n \<and> n \<le> 70 then Some (n - 55)
         else if 97 \<le> n \<and> n \<le> 102 then Some (n - 87)
         else None)"

definition unicode_escape :: "string \<Rightarrow> char option" where
  "unicode_escape s =
     (case map hex_value (take 4 s) of
        [Some a, Some b, Some c, Some d] \<Rightarrow>
          (if a = 0 \<and> b = 0 then Some (char_of (16 * c + d)) else None)
      | _ \<Rightarrow> None)"

definition escape_char :: "char \<Rightarrow> char option" where
  "escape_char e =
     (if e = CHR 0x22 \<or> e = CHR 0x5C \<or> e = CHR ''/'' then Some e
      else if e = CHR ''b'' then Some (CHR 0x08)
      else if e = CHR ''f'' then Some (CHR 0x0C)
      else if e = CHR ''n'' then Some (CHR 0x0A)
      else if e = CHR ''r'' then Some (CHR 0x0D)
      else if e = CHR ''t'' then Some (CHR 0x09)
      else None)"

text \<open>The rest of a string after its opening quote: the decoded text and what follows
  the closing quote.\<close>

fun scan_string :: "string \<Rightarrow> string \<Rightarrow> (string \<times> string) option" where
  "scan_string [] acc = None"
| "scan_string (c # cs) acc =
     (if c = CHR 0x22 then Some (rev acc, cs)
      else if c = CHR 0x5C
      then (case cs of
              [] \<Rightarrow> None
            | e # r \<Rightarrow>
                if e = CHR ''u''
                then (case unicode_escape r of
                        None \<Rightarrow> None
                      | Some ch \<Rightarrow> scan_string (drop 4 r) (ch # acc))
                else (case escape_char e of
                        None \<Rightarrow> None
                      | Some ch \<Rightarrow> scan_string r (ch # acc)))
      else if (of_char c :: nat) < 32 then None
      else scan_string cs (c # acc))"

text \<open>A number: \<^verbatim>\<open>-?(0|[1-9][0-9]*)\<close>, then an optional fraction and an optional exponent;
  without either the value is an \<^verbatim>\<open>int\<close>.\<close>

definition scan_number :: "string \<Rightarrow> (json \<times> string) option" where
  "scan_number s =
     (let neg = (s \<noteq> [] \<and> hd s = CHR ''-'');
          s1 = (if neg then tl s else s);
          ds = (if s1 \<noteq> [] \<and> hd s1 = CHR ''0'' then ''0'' else takeWhile isdigit s1);
          s2 = drop (length ds) s1;
          fs = (if s2 \<noteq> [] \<and> hd s2 = CHR ''.'' then takeWhile isdigit (tl s2) else []);
          s3 = (if fs = [] then s2 else drop (length fs) (tl s2));
          has_e = (s3 \<noteq> [] \<and> (hd s3 = CHR ''e'' \<or> hd s3 = CHR ''E''));
          s4 = (if has_e then tl s3 else s3);
          signed = (s4 \<noteq> [] \<and> (hd s4 = CHR ''-'' \<or> hd s4 = CHR ''+''));
          eneg = (s4 \<noteq> [] \<and> hd s4 = CHR ''-'');
          s5 = (if signed then tl s4 else s4);
          es = (if has_e then takeWhile isdigit s5 else []);
          s6 = (if es = [] then s3 else drop (length es) s5);
          m = real (nat_of_digits ds) + real (nat_of_digits fs) / 10 ^ length fs;
          x = (if eneg then m / 10 ^ nat_of_digits es else m * 10 ^ nat_of_digits es)
      in if ds = [] then None
         else if fs = [] \<and> es = []
         then Some (JInt (if neg then - int (nat_of_digits ds) else int (nat_of_digits ds)), s6)
         else Some (JFloat (Finite (if neg then - x else x)), s6))"

fun parse_value :: "nat \<Rightarrow> string \<Rightarrow> (json \<times> string) option"
  and parse_elements :: "nat \<Rightarrow> json list \<Rightarrow> string \<Rightarrow> (json \<times> string) option"
  and parse_members :: "nat \<Rightarrow> (string \<times> json) list \<Rightarrow> string \<Rightarrow> (json \<times> string) option"
where
  "parse_value 0 s = None"
| "parse_value (Suc n) s =
     (case s of
        [] \<Rightarrow> None
      | c # cs \<Rightarrow>
          if c = CHR 0x22
          then (case scan_string cs [] of None \<Rightarrow> None | Some (t, r) \<Rightarrow> Some (JStr t, r))
          else if c = CHR ''{''
          then (case skip_ws cs of
                  [] \<Rightarrow> None
                | d # r \<Rightarrow> if d = CHR ''}'' then Some (JObj [], r) else parse_members n [] (d # r))
          else if c = CHR ''[''
          then (case skip_ws cs of
                  [] \<Rightarrow> None
                | d # r \<Rightarrow> if d = CHR '']'' then Some (JArr [], r) else parse_elements n [] (d # r))
          else if prefix ''null'' s then Some (JNull, drop 4 s)
          else if prefix ''true'' s then Some (JBool True, drop 4 s)
          else if prefix ''false'' s then Some (JBool False, drop 5 s)
          else if prefix ''NaN'' s then Some (JFloat NaN, drop 3 s)
          else if prefix ''Infinity'' s then Some (JFloat PosInf, drop 8 s)
          else if prefix ''-Infinity'' s then Some (JFloat NegInf, drop 9 s)
          else scan_number s)"
| "parse_elements 0 acc s = None"
| "parse_elements (Suc n) acc s =
     (case parse_value n s of
        None \<Rightarrow> None
      | Some (v, r) \<Rightarrow>
          (case skip_ws r of
             [] \<Rightarrow> None
           | d # r' \<Rightarrow>
               if d = CHR '','' then parse_elements n (acc @ [v]) (skip_ws r')
               else if d = CHR '']'' then Some (JArr (acc @ [v]), r')
               else None))"
| "parse_members 0 acc s = None"
| "parse_members (Suc n) acc s =
     (case s of
        [] \<Rightarrow> None
      | q # cs \<Rightarrow>
          if q \<noteq> CHR 0x22 then None
          else (case scan_string cs [] of
                  None \<Rightarrow> None
                | Some (key, r) \<Rightarrow>
                    (case skip_ws r of
                       [] \<Rightarrow> None
                     | d # r' \<Rightarrow>
                         if d \<noteq> CHR '':'' then None
                         else (case parse_value n (skip_ws r') of
                                 None \<Rightarrow> None
                               | Some (v, r'') \<Rightarrow>
                                   (case skip_ws r'' of
                                      [] \<Rightarrow> None
                                    | d' # r''' \<Rightarrow>
                                        if d' = CHR '','' then parse_members n (dict_set acc key v) (skip_ws r''')
                                        else if d' = CHR ''}'' then Some (JObj (dict_set acc key v), r''')
                                        else None)))))"

definition json_loads :: loads where
  "json_loads s =
     (case parse_value (2 * length s + 2) (skip_ws s) of
        None \<Rightarrow> Inl (JSONDecodeError ''Expecting value'')
      | Some (v, r) \<Rightarrow> if skip_ws r = [] then Inr v else Inl (JSONDecodeError ''Extra data''))"


section \<open>Properties of the response parser\<close>

lemma find_from_single: "0 \<le> k \<Longrightarrow> (find_from [c] s k = - 1) = (c \<notin> set s)"
proof (induction s arbitrary: k)
  case Nil
  then show ?case by simp
next
  case (Cons x xs)
  from Cons.IH [of "k + 1"] Cons.prems show ?case by auto
qed

lemma py_in_single: "py_in [c] s = (c \<in> set s)"
  using find_from_single [of 0 c s] by (simp add: py_in_def py_find_def)

lemma replace_from_set: "set (replace_from old [] k s) \<subseteq> set s"
  by (induction old "[] :: string" k s rule: replace_from.induct) auto

lemma replace_from_length: "length (replace_from old [] k s) \<le> length s"
  by (induction old "[] :: string" k s rule: replace_from.induct) auto

lemma strip_fences_set: "set (strip_fences s) \<subseteq> set s"
  using replace_from_set [of "''```''" 0 "replace_from ''```json'' [] 0 s"]
    replace_from_set [of "''```json''" 0 s]
  by (auto simp: strip_fences_def py_replace_def)

lemma strip_fences_length: "length (strip_fences s) \<le> length s"
  using replace_from_length [of "''```''" 0 "replace_from ''```json'' [] 0 s"]
    replace_from_length [of "''```json''" 0 s]
  by (auto simp: strip_fences_def py_replace_def)


lemma summary_dict_lookup:
  "json_lookup (summary_dict summary notes) ''comprehensive_summary'' = Some (JStr summary)"
  "json_lookup (summary_dict summary notes) ''high_priority_emails'' = Some (JArr [])"
  "json_lookup (summary_dict summary notes) ''action_items'' = Some (JArr [])"
  "json_lookup (summary_dict summary notes) ''email_categories'' = Some (JObj [])"
  by (simp_all add: summary_dict_def)


lemma parse_batch_response_lets_through:
  assumes "py_in ''{'' (strip_fences response)" and "py_in ''}'' (strip_fences response)"
    and "loads (py_strip (py_slice (strip_fences response) (py_find ''{'' (strip_fences response))
                   (py_rfind ''}'' (strip_fences response) + 1))) = Inl RecursionError"
  shows "parse_batch_response loads response = Inl RecursionError"
  using assms by (simp add: parse_batch_response_def Let_def)




text \<open>C5, as the code has it. A response of 300 characters without a brace takes the
  branch of line 201: its summary is the whole response, from which the code fences were
  removed if \<^verbatim>\<open>```json\<close> occurred, and no dots are added, since 500 characters are not
  exceeded.\<close>

theorem no_brace_response_is_kept_whole:
  assumes "CHR ''{'' \<notin> set response" and "CHR ''}'' \<notin> set response"
    and "length response = 300"
  shows "parse_batch_response loads response
           = Inr (summary_dict (strip_fences response) ''Response parsing failed'')
         \<and> json_lookup (summary_dict (strip_fences response) ''Response parsing failed'')
              ''comprehensive_summary'' = Some (JStr (strip_fences response))
         \<and> (if py_in ''```json'' response then True else strip_fences response = response)"
proof -
  from assms(1) strip_fences_set [of response] have "\<not> py_in ''{'' (strip_fences response)"
    by (auto simp: py_in_single)
  moreover from assms(3) strip_fences_length [of response]
  have "\<not> 500 < length (strip_fences response)" by simp
  ultimately show ?thesis
    by (simp add: parse_batch_response_def Let_def summary_dict_lookup strip_fences_def)
qed

theorem no_brace_response_is_kept_whole_witness:
  "CHR ''{'' \<notin> set (replicate 300 (CHR ''a'')) \<and> CHR ''}'' \<notin> set (replicate 300 (CHR ''a''))
   \<and> length (replicate 300 (CHR ''a'')) = 300
   \<and> parse_batch_response json_loads (replicate 300 (CHR ''a''))
       = Inr (summary_dict (replicate 300 (CHR ''a'')) ''Response parsing failed'')"
proof -
  have a: "CHR ''{'' \<notin> set (replicate 300 (CHR ''a''))"
    and b: "CHR ''}'' \<notin> set (replicate 300 (CHR ''a''))"
    and c: "length (replicate 300 (CHR ''a'')) = 300" by simp_all
  have "strip_fences (replicate 300 (CHR ''a'')) = replicate 300 (CHR ''a'')"
    by code_simp
  with no_brace_response_is_kept_whole [OF a b c, of json_loads] a b c show ?thesis by simp
qed

text \<open>C5, as the claim states it, fails: for 300 letters the summary is the 300 letters,
  not the first 200 of them with three dots.\<close>

theorem long_prose_summary_is_not_cut_at_200:
  "parse_batch_response json_loads (replicate 300 (CHR ''a''))
     = Inr (summary_dict (replicate 300 (CHR ''a'')) ''Response parsing failed'')
   \<and> replicate 300 (CHR ''a'') \<noteq> take 200 (replicate 300 (CHR ''a'')) @ ''...''"
  by code_simp

section \<open>The usage tracker\<close>

text \<open>The dictionary \<^verbatim>\<open>self.usage_tracker\<close>. The times are the floats of \<^verbatim>\<open>time.time()\<close>,
  idealised as real numbers of seconds.\<close>

record usage =
  requests_this_minute :: int
  tokens_this_minute :: int
  requests_today :: int
  last_request_time :: real
  minute_start_time :: real

text \<open>\<^verbatim>\<open>self.rate_limits['google']\<close>\<close>

definition requests_per_minute :: int where
  "requests_per_minute = 15"

definition tokens_per_minute :: int where
  "tokens_per_minute = 250000"

definition requests_per_day :: int where
  "requests_per_day = 1000"

definition min_delay_between_requests :: real where
  "min_delay_between_requests = 4"

text \<open>What a run of the processor does to the outside, in order: the log is not a field of
  the Python object; it records the calls of \<^verbatim>\<open>_check_rate_limits\<close>, \<^verbatim>\<open>time.sleep\<close> and
  \<^verbatim>\<open>requests.post\<close> so that their order can be stated.\<close>

datatype event = CheckRateLimits | Sleep real | HttpPost string

text \<open>The state a method works on: the tracker of the object, the clock that
  \<^verbatim>\<open>time.time()\<close> reads, and the log.\<close>

record world =
  usage_tracker :: usage
  clock :: real
  events :: "event list"

text \<open>\<^verbatim>\<open>time.sleep(d)\<close> returns when \<open>d\<close> seconds have passed.\<close>

definition sleep :: "real \<Rightarrow> world \<Rightarrow> world" where
  "sleep d w = w\<lparr>clock := clock w + d, events := events w @ [Sleep d]\<rparr>"

text \<open>Time that passes between two calls. Within a call the clock moves only while the
  call sleeps.\<close>

definition elapse :: "real \<Rightarrow> world \<Rightarrow> world" where
  "elapse d w = w\<lparr>clock := clock w + d\<rparr>"

text \<open>The tracker that \<^verbatim>\<open>__init__\<close> builds (lines 45 to 51), in a world whose clock reads
  \<open>now\<close>.\<close>

definition init_world :: "real \<Rightarrow> world" where
  "init_world now =
     \<lparr> usage_tracker =
         \<lparr> requests_this_minute = 0, tokens_this_minute = 0, requests_today = 0,
           last_request_time = 0, minute_start_time = now \<rparr>,
       clock = now, events = [] \<rparr>"

definition daily_limit_message :: string where
  "daily_limit_message = ''Daily request limit (1000) exceeded. Please try again tomorrow.''"

text \<open>Lines 399 to 403.\<close>

definition reset_minute :: "real \<Rightarrow> world \<Rightarrow> world" where
  "reset_minute current_time w =
     (if 60 \<le> current_time - minute_start_time (usage_tracker w)
      then w\<lparr>usage_tracker := (usage_tracker w)
               \<lparr>requests_this_minute := 0, tokens_this_minute := 0,
                minute_start_time := current_time\<rparr>\<rparr>
      else w)"

text \<open>Lines 409 to 417.\<close>

definition wait_for_requests :: "real \<Rightarrow> world \<Rightarrow> world" where
  "wait_for_requests current_time w =
     (if requests_per_minute \<le> requests_this_minute (usage_tracker w)
      then (let wait_time = 60 - (current_time - minute_start_time (usage_tracker w))
            in if 0 < wait_time
               then (let w' = sleep wait_time w
                     in w'\<lparr>usage_tracker := (usage_tracker w')
                              \<lparr>requests_this_minute := 0, tokens_this_minute := 0,
                               minute_start_time := clock w'\<rparr>\<rparr>)
               else w)
      else w)"

text \<open>Lines 419 to 425.\<close>

definition wait_for_tokens :: "real \<Rightarrow> world \<Rightarrow> world" where
  "wait_for_tokens current_time w =
     (if tokens_per_minute \<le> tokens_this_minute (usage_tracker w)
      then (let wait_time = 60 - (current_time - minute_start_time (usage_tracker w))
            in if 0 < wait_time
               then (let w' = sleep wait_time w
                     in w'\<lparr>usage_tracker := (usage_tracker w')
                              \<lparr>tokens_this_minute := 0, minute_start_time := clock w'\<rparr>\<rparr>)
               else w)
      else w)"

text \<open>Lines 427 to 432.\<close>

definition enforce_min_delay :: "real \<Rightarrow> world \<Rightarrow> world" where
  "enforce_min_delay current_time w =
     (let time_since_last = current_time - last_request_time (usage_tracker w)
      in if time_since_last < min_delay_between_requests
         then sleep (min_delay_between_requests - time_since_last) w
         else w)"

text \<open>\<^verbatim>\<open>_check_rate_limits\<close>: the exception raised, if any, and the state left behind.
  \<^verbatim>\<open>current_time\<close> is read once, at the start.\<close>

definition check_rate_limits :: "world \<Rightarrow> exn option \<times> world" where
  "check_rate_limits w0 =
     (let w = w0\<lparr>events := events w0 @ [CheckRateLimits]\<rparr>;
          current_time = clock w;
          w = reset_minute current_time w
      in if requests_per_day \<le> requests_today (usage_tracker w)
         then (Some (Exception daily_limit_message), w)
         else (None,
               enforce_min_delay current_time
                 (wait_for_tokens current_time (wait_for_requests current_time w))))"

text \<open>\<^verbatim>\<open>_update_usage_tracker\<close>\<close>

definition update_usage_tracker :: "int \<Rightarrow> world \<Rightarrow> world" where
  "update_usage_tracker tokens_used w =
     (let current_time = clock w
      in w\<lparr>usage_tracker := (usage_tracker w)
             \<lparr>requests_this_minute := requests_this_minute (usage_tracker w) + 1,
              tokens_this_minute := tokens_this_minute (usage_tracker w) + tokens_used,
              requests_today := requests_today (usage_tracker w) + 1,
              last_request_time := current_time\<rparr>\<rparr>)"

text \<open>\<^verbatim>\<open>get_usage_status\<close> reads the tracker and the clock and changes nothing; of its
  dictionary the model keeps \<^verbatim>\<open>time_until_minute_reset\<close> and \<^verbatim>\<open>can_make_request\<close>.\<close>

definition get_usage_status :: "world \<Rightarrow> real \<times> bool" where
  "get_usage_status w =
     (let current_time = clock w
      in (max 0 (60 - (current_time - minute_start_time (usage_tracker w))),
          requests_this_minute (usage_tracker w) < requests_per_minute
          \<and> tokens_this_minute (usage_tracker w) < tokens_per_minute
          \<and> requests_today (usage_tracker w) < requests_per_day))"

section \<open>The provider clients\<close>

text \<open>What the network answers to one \<^verbatim>\<open>requests.post\<close>: no response at all (the call
  raises), or a response with its status code and what indexing its body yields, the
  completion text or the exception of \<^verbatim>\<open>response.json()\<close> or of a missing key. The
  completion is a string in the schema of each provider and in the signature of the
  three methods.\<close>

datatype http_reply = ConnectionFailed | Reply int "exn + string"

definition base_url :: "string \<Rightarrow> string" where
  "base_url p =
     (if p = ''openai'' then ''https://api.openai.com/v1/chat/completions''
      else if p = ''anthropic'' then ''https://api.anthropic.com/v1/messages''
      else ''https://generativelanguage.googleapis.com/v1beta/models/gemini-2.0-flash-lite:generateContent'')"

text \<open>\<^verbatim>\<open>requests.post(url, ...)\<close>\<close>

definition post :: "string \<Rightarrow> world \<Rightarrow> world" where
  "post url w = w\<lparr>events := events w @ [HttpPost url]\<rparr>"

text \<open>\<^verbatim>\<open>response.raise_for_status()\<close> raises for the codes 400 to 599.\<close>

definition is_error_status :: "int \<Rightarrow> bool" where
  "is_error_status status = (400 \<le> status \<and> status < 600)"

text \<open>\<^verbatim>\<open>_call_openai_api\<close> and \<^verbatim>\<open>_call_anthropic_api\<close>: post, check the status, index the
  body.\<close>

definition call_openai_api :: "world \<Rightarrow> string \<Rightarrow> http_reply \<Rightarrow> (exn + string) \<times> world" where
  "call_openai_api w prompt reply =
     (let w = post (base_url ''openai'') w
      in case reply of
           ConnectionFailed \<Rightarrow> (Inl RequestException, w)
         | Reply status body \<Rightarrow>
             if is_error_status status then (Inl (HTTPError status), w) else (body, w))"

definition call_anthropic_api :: "world \<Rightarrow> string \<Rightarrow> http_reply \<Rightarrow> (exn + string) \<times> world" where
  "call_anthropic_api w prompt reply =
     (let w = post (base_url ''anthropic'') w
      in case reply of
           ConnectionFailed \<Rightarrow> (Inl RequestException, w)
         | Reply status body \<Rightarrow>
             if is_error_status status then (Inl (HTTPError status), w) else (body, w))"

text \<open>\<^verbatim>\<open>_call_google_api\<close>: the rate limits are checked first; the tracker is updated
  after the status check and before the body is indexed.\<close>

definition call_google_api :: "world \<Rightarrow> string \<Rightarrow> http_reply \<Rightarrow> (exn + string) \<times> world" where
  "call_google_api w prompt reply =
     (case check_rate_limits w of
        (Some e, w) \<Rightarrow> (Inl e, w)
      | (None, w) \<Rightarrow>
          (let estimated_tokens = int (length prompt) div 4;
               w = post (base_url ''google'') w
           in case reply of
                ConnectionFailed \<Rightarrow> (Inl RequestException, w)
              | Reply status body \<Rightarrow>
                  if is_error_status status then (Inl (HTTPError status), w)
                  else (body, update_usage_tracker estimated_tokens w)))"

text \<open>\<^verbatim>\<open>_call_llm_api\<close>\<close>

definition call_llm_api ::
  "string \<Rightarrow> world \<Rightarrow> string \<Rightarrow> http_reply \<Rightarrow> (exn + string) \<times> world" where
  "call_llm_api provider w prompt reply =
     (if provider = ''openai'' then call_openai_api w prompt reply
      else if provider = ''anthropic'' then call_anthropic_api w prompt reply
      else if provider = ''google'' then call_google_api w prompt reply
      else (Inl (ValueError (''Unsupported provider: '' @ provider)), w))"


text \<open>The calls that returned a completion.\<close>

fun returned :: "exn + string \<Rightarrow> bool" where
  "returned (Inr s) = True"
| "returned (Inl e) = False"


text \<open>The methods that touch the tracker, as operations on one processor, and time
  passing between them.\<close>

datatype op =
    Elapse real
  | CheckLimits
  | UpdateUsage int
  | UsageStatus
  | CallApi string string http_reply

fun run_op :: "op \<Rightarrow> world \<Rightarrow> world" where
  "run_op (Elapse d) w = elapse d w"
| "run_op CheckLimits w = snd (check_rate_limits w)"
| "run_op (UpdateUsage tokens_used) w = update_usage_tracker tokens_used w"
| "run_op UsageStatus w = (case get_usage_status w of (t, can) \<Rightarrow> w)"
| "run_op (CallApi provider prompt reply) w = snd (call_llm_api provider w prompt reply)"

definition run_ops :: "op list \<Rightarrow> world \<Rightarrow> world" where
  "run_ops ops w = fold run_op ops w"

text \<open>A prompt of a million characters, estimated at 250000 tokens, and a reply that
  carries a completion.\<close>

definition big_prompt :: string where
  "big_prompt = replicate 1000000 (CHR ''x'')"

definition ok_reply :: http_reply where
  "ok_reply = Reply 200 (Inr ''{}'')"

text \<open>A tracker that has counted a thousand requests.\<close>

definition spent_world :: world where
  "spent_world =
     \<lparr> usage_tracker =
         \<lparr> requests_this_minute = 1, tokens_this_minute = 10, requests_today = 1000,
           last_request_time = 5000, minute_start_time = 4990 \<rparr>,
       clock = 5001, events = [] \<rparr>"

section \<open>Properties of the usage tracker and of the clients\<close>

lemmas tracker_defs =
  reset_minute_def wait_for_requests_def wait_for_tokens_def enforce_min_delay_def
  sleep_def elapse_def update_usage_tracker_def post_def

lemma reset_minute_keeps:
  "requests_today (usage_tracker (reset_minute t w)) = requests_today (usage_tracker w)"
  "events (reset_minute t w) = events w"
  "clock (reset_minute t w) = clock w"
  by (simp_all add: reset_minute_def)

lemma wait_for_requests_keeps:
  "requests_today (usage_tracker (wait_for_requests t w)) = requests_today (usage_tracker w)"
  by (simp add: wait_for_requests_def sleep_def Let_def)

lemma wait_for_tokens_keeps:
  "requests_today (usage_tracker (wait_for_tokens t w)) = requests_today (usage_tracker w)"
  by (simp add: wait_for_tokens_def sleep_def Let_def)

lemma enforce_min_delay_keeps:
  "requests_today (usage_tracker (enforce_min_delay t w)) = requests_today (usage_tracker w)"
  by (simp add: enforce_min_delay_def sleep_def Let_def)

lemma check_rate_limits_keeps:
  "requests_today (usage_tracker (snd (check_rate_limits w))) = requests_today (usage_tracker w)"
  by (simp add: check_rate_limits_def Let_def reset_minute_keeps wait_for_requests_keeps
      wait_for_tokens_keeps enforce_min_delay_keeps)

lemma check_rate_limits_raises_iff:
  "(fst (check_rate_limits w) = Some (Exception daily_limit_message))
     = (requests_per_day \<le> requests_today (usage_tracker w))"
  by (simp add: check_rate_limits_def Let_def reset_minute_keeps)

lemma check_rate_limits_result:
  "fst (check_rate_limits w) = None \<or> fst (check_rate_limits w) = Some (Exception daily_limit_message)"
  by (simp add: check_rate_limits_def Let_def)



lemma call_google_api_counts:
  "requests_today (usage_tracker w) + (if returned (fst (call_google_api w prompt reply)) then 1 else 0)
     \<le> requests_today (usage_tracker (snd (call_google_api w prompt reply)))"
proof (cases "check_rate_limits w")
  case (Pair e w')
  with check_rate_limits_keeps [of w]
  have k: "requests_today (usage_tracker w') = requests_today (usage_tracker w)" by simp
  from Pair check_rate_limits_result [of w]
  have "e = None \<or> e = Some (Exception daily_limit_message)" by simp
  with Pair k show ?thesis
    by (cases reply) (auto simp: call_google_api_def Let_def post_def update_usage_tracker_def)
qed

lemma call_google_api_monotone:
  "requests_today (usage_tracker w)
     \<le> requests_today (usage_tracker (snd (call_google_api w prompt reply)))"
  using call_google_api_counts [of w prompt reply] by (simp split: if_splits)






lemma call_llm_api_monotone:
  "requests_today (usage_tracker w)
     \<le> requests_today (usage_tracker (snd (call_llm_api provider w prompt reply)))"
proof -
  have "usage_tracker (snd (call_openai_api w prompt reply)) = usage_tracker w"
    by (cases reply) (simp_all add: call_openai_api_def post_def Let_def)
  moreover have "usage_tracker (snd (call_anthropic_api w prompt reply)) = usage_tracker w"
    by (cases reply) (simp_all add: call_anthropic_api_def post_def Let_def)
  ultimately show ?thesis
    using call_google_api_monotone [of w prompt reply] by (simp add: call_llm_api_def)
qed

lemma run_op_monotone:
  "requests_today (usage_tracker w) \<le> requests_today (usage_tracker (run_op x w))"
proof (cases x)
  case (CallApi provider prompt reply)
  then show ?thesis using call_llm_api_monotone [of w provider prompt reply] by simp
qed (simp_all add: elapse_def check_rate_limits_keeps update_usage_tracker_def split: prod.split)

lemma run_ops_monotone:
  "requests_today (usage_tracker w) \<le> requests_today (usage_tracker (run_ops ops w))"
proof (induction ops arbitrary: w)
  case Nil
  then show ?case by (simp add: run_ops_def)
next
  case (Cons x ops)
  from run_op_monotone [of w x] Cons.IH [of "run_op x w"] show ?case
    by (simp add: run_ops_def)
qed

text \<open>C10. No sequence of the methods that touch the tracker, with any amount of time
  between them, makes \<^verbatim>\<open>requests_today\<close> smaller; so once \<^verbatim>\<open>_check_rate_limits\<close> has
  raised the daily exception, it raises it again after any such sequence.\<close>

theorem requests_today_never_decreases:
  "requests_today (usage_tracker w) \<le> requests_today (usage_tracker (run_ops ops w))
   \<and> (fst (check_rate_limits w) = Some (Exception daily_limit_message) \<longrightarrow>
        fst (check_rate_limits (run_ops ops w)) = Some (Exception daily_limit_message))"
  using run_ops_monotone [of w ops] by (simp add: check_rate_limits_raises_iff)

theorem requests_today_never_decreases_witness:
  "fst (check_rate_limits spent_world) = Some (Exception daily_limit_message)
   \<and> requests_today (usage_tracker spent_world)
       \<le> requests_today (usage_tracker
            (run_ops [Elapse 100000, CallApi ''google'' ''hi'' ok_reply, UpdateUsage 5,
                      UsageStatus, CheckLimits] spent_world))
   \<and> fst (check_rate_limits
            (run_ops [Elapse 100000, CallApi ''google'' ''hi'' ok_reply, UpdateUsage 5,
                      UsageStatus, CheckLimits] spent_world))
       = Some (Exception daily_limit_message)"
proof -
  have "fst (check_rate_limits spent_world) = Some (Exception daily_limit_message)"
    by (simp add: check_rate_limits_raises_iff spent_world_def requests_per_day_def)
  with requests_today_never_decreases
         [of spent_world "[Elapse 100000, CallApi ''google'' ''hi'' ok_reply, UpdateUsage 5,
                           UsageStatus, CheckLimits]"]
  show ?thesis by simp
qed







text \<open>C2 fails on the code. A new processor sends a prompt of a million characters; ten
  seconds later the next check finds 250000 tokens counted, sleeps for the rest of the
  minute and starts a new one: \<^verbatim>\<open>minute_start_time\<close> moves from 1000 to 1060 and
  \<^verbatim>\<open>tokens_this_minute\<close> is zeroed, but \<^verbatim>\<open>requests_this_minute\<close> stays 1 (lines 424 and 425
  do not reset it, as lines 401 and 402 and lines 415 and 416 do).\<close>

theorem token_wait_leaves_requests_this_minute:
  "usage_tracker (snd (call_google_api (init_world 1000) big_prompt ok_reply))
     = \<lparr> requests_this_minute = 1, tokens_this_minute = 250000, requests_today = 1,
         last_request_time = 1000, minute_start_time = 1000 \<rparr>
   \<and> check_rate_limits (elapse 10 (snd (call_google_api (init_world 1000) big_prompt ok_reply)))
     = (None,
        \<lparr> usage_tracker =
            \<lparr> requests_this_minute = 1, tokens_this_minute = 0, requests_today = 1,
              last_request_time = 1000, minute_start_time = 1060 \<rparr>,
          clock = 1060,
          events = [CheckRateLimits, HttpPost (base_url ''google''), CheckRateLimits, Sleep 50] \<rparr>)"
  by (simp add: call_google_api_def check_rate_limits_def tracker_defs Let_def init_world_def
      big_prompt_def ok_reply_def is_error_status_def requests_per_day_def
      requests_per_minute_def tokens_per_minute_def min_delay_between_requests_def)

section \<open>The entry point\<close>

text \<open>The fields of the processor that no method changes. \<^verbatim>\<open>api_key\<close> is \<open>None\<close> when
  neither the argument nor the environment variable gave one.\<close>

record processor =
  api_key :: "string option"
  provider :: string

text \<open>What a call of \<^verbatim>\<open>process_emails_from_file\<close> meets outside the processor:
  \<^verbatim>\<open>json.loads\<close>, the files that can be read, the answer of the network, and the text of
  \<^verbatim>\<open>datetime.now().isoformat()\<close>.\<close>

record env =
  env_loads :: loads
  env_files :: "string \<Rightarrow> string option"
  env_reply :: http_reply
  env_isoformat :: string

text \<open>Python's truth value of \<^verbatim>\<open>self.api_key\<close>.\<close>

fun truthy_str :: "string option \<Rightarrow> bool" where
  "truthy_str None = False"
| "truthy_str (Some s) = (s \<noteq> [])"

definition email_json :: "email \<Rightarrow> json" where
  "email_json e =
     JObj [(''title'', JStr (email_title e)), (''sender'', JStr (email_sender e)),
           (''date'', JStr (email_date e)), (''text'', JStr (email_text e))]"

text \<open>\<^verbatim>\<open>_process_all_emails_batch\<close>. \<^verbatim>\<open>parsed_response.get\<close> exists only on a dictionary;
  on any other value the attribute lookup raises.\<close>

definition process_all_emails_batch ::
  "env \<Rightarrow> processor \<Rightarrow> world \<Rightarrow> email list \<Rightarrow> (exn + json) \<times> world" where
  "process_all_emails_batch en self w emails =
     (let batch_prompt = create_batch_analysis_prompt emails
      in case call_llm_api (provider self) w batch_prompt (env_reply en) of
           (Inl e, w) \<Rightarrow> (Inl e, w)
         | (Inr response, w) \<Rightarrow>
             (case parse_batch_response (env_loads en) response of
                Inl e \<Rightarrow> (Inl e, w)
              | Inr (JObj parsed_response) \<Rightarrow>
                  (Inr (JObj
                     [(''total_emails'', JInt (int (length emails))),
                      (''analysis_timestamp'', JStr (env_isoformat en)),
                      (''comprehensive_summary'',
                         py_get parsed_response ''comprehensive_summary'' (JStr ''No summary generated'')),
                      (''high_priority_emails'', py_get parsed_response ''high_priority_emails'' (JArr [])),
                      (''action_items'', py_get parsed_response ''action_items'' (JArr [])),
                      (''email_categories'', py_get parsed_response ''email_categories'' (JObj [])),
                      (''processing_notes'', py_get parsed_response ''processing_notes'' (JStr [])),
                      (''raw_emails'', JArr (map email_json emails))]), w)
              | Inr other \<Rightarrow> (Inl AttributeError, w)))"

text \<open>\<^verbatim>\<open>_save_results\<close> writes the file inside its own \<^verbatim>\<open>try\<close>: whether the write
  succeeds or not, the method returns. The log keeps the attempt.\<close>

datatype file_event = SaveResults string json

record run =
  run_world :: world
  run_saved :: "file_event list"

definition save_results :: "json \<Rightarrow> string \<Rightarrow> run \<Rightarrow> run" where
  "save_results processed_emails output_file r =
     r\<lparr>run_saved := run_saved r @ [SaveResults output_file processed_emails]\<rparr>"

text \<open>\<^verbatim>\<open>process_emails_from_file\<close>: the value returned, or the exception that leaves the
  method, and the state afterwards. \<^verbatim>\<open>except Exception\<close> catches every exception of the
  model.\<close>

definition process_emails_from_file ::
  "env \<Rightarrow> processor \<Rightarrow> run \<Rightarrow> string \<Rightarrow> string option \<Rightarrow> (exn + json) \<times> run" where
  "process_emails_from_file en self r extracted_file output_file =
     (if \<not> truthy_str (api_key self) then (Inr (JArr []), r)
      else (let emails = parse_extracted_file (env_files en) extracted_file
            in if emails = [] then (Inr (JArr []), r)
               else (case process_all_emails_batch en self (run_world r) emails of
                       (Inr comprehensive_analysis, w) \<Rightarrow>
                         (let r = r\<lparr>run_world := w\<rparr>;
                              r = (case output_file of
                                     Some name \<Rightarrow>
                                       if name \<noteq> [] then save_results comprehensive_analysis name r
                                       else r
                                   | None \<Rightarrow> r)
                          in (Inr comprehensive_analysis, r))
                     | (Inl e, w) \<Rightarrow> (Inr (JArr []), r\<lparr>run_world := w\<rparr>))))"

text \<open>Whether a value is the empty list or a dictionary.\<close>

fun is_mapping :: "json \<Rightarrow> bool" where
  "is_mapping (JObj d) = True"
| "is_mapping v = False"

section \<open>Properties of the entry point\<close>

lemma process_all_emails_batch_mapping:
  "fst (process_all_emails_batch en self w emails) = Inr v \<Longrightarrow> is_mapping v"
  by (auto simp: process_all_emails_batch_def Let_def
      split: prod.splits sum.splits json.splits)

text \<open>C9. \<^verbatim>\<open>process_emails_from_file\<close> always returns. Without an API key, with no record
  parsed from the file, or when the batch processing raises, it returns the empty list;
  otherwise it returns what the batch processing returned, which is a dictionary.\<close>

theorem process_emails_from_file_returns_list_or_mapping:
  "fst (process_emails_from_file en self r extracted_file output_file)
     = Inr (if \<not> truthy_str (api_key self)
              \<or> parse_extracted_file (env_files en) extracted_file = []
            then JArr []
            else (case fst (process_all_emails_batch en self (run_world r)
                              (parse_extracted_file (env_files en) extracted_file)) of
                    Inl e \<Rightarrow> JArr []
                  | Inr comprehensive_analysis \<Rightarrow> comprehensive_analysis))
   \<and> (case fst (process_all_emails_batch en self (run_world r)
                  (parse_extracted_file (env_files en) extracted_file)) of
        Inl e \<Rightarrow> True
      | Inr comprehensive_analysis \<Rightarrow>
          is_mapping comprehensive_analysis \<and> comprehensive_analysis \<noteq> JArr [])"
proof -
  have "is_mapping v \<and> v \<noteq> JArr []"
    if "fst (process_all_emails_batch en self (run_world r)
               (parse_extracted_file (env_files en) extracted_file)) = Inr v" for v
    using process_all_emails_batch_mapping [OF that] by (cases v) auto
  then show ?thesis
    by (auto simp: process_emails_from_file_def Let_def
        split: prod.splits sum.splits option.splits)
qed

text \<open>A run on concrete data: a file with two emails in the layout of
  \<^verbatim>\<open>create_combined_summary.py\<close>, the Google client on a new processor, and a response
  that carries a JSON object with a summary.\<close>

definition demo_blob :: string where
  "demo_blob =
     ''EMAIL 1\<newline>'' @ replicate 30 (CHR ''-'')
     @ ''\<newline>Title: Invoice Due\<newline>From: billing@x.com\<newline>Date: 2025-01-01\<newline>Content:\<newline>Pay by Friday\<newline>''
     @ replicate 60 (CHR ''='') @ ''\<newline>\<newline>''
     @ ''EMAIL 2\<newline>'' @ replicate 30 (CHR ''-'')
     @ ''\<newline>Title: Newsletter\<newline>From: news@y.com\<newline>Date: 2025-01-01\<newline>Content:\<newline>Weekly digest\<newline>''
     @ replicate 60 (CHR ''='') @ ''\<newline>''"

definition demo_emails :: "email list" where
  "demo_emails =
     [\<lparr> email_title = ''Invoice Due'', email_sender = ''billing@x.com'',
        email_date = ''2025-01-01'', email_text = ''Pay by Friday'' \<rparr>,
      \<lparr> email_title = ''Newsletter'', email_sender = ''news@y.com'',
        email_date = ''2025-01-01'', email_text = ''Weekly digest'' \<rparr>]"

definition demo_response :: string where
  \<open>demo_response = ''{"comprehensive_summary": "All clear."}''\<close>

definition demo_env :: env where
  "demo_env =
     \<lparr> env_loads = json_loads,
       env_files = (\<lambda>path. if path = ''emails_extracted.txt'' then Some demo_blob else None),
       env_reply = Reply 200 (Inr demo_response),
       env_isoformat = ''2025-01-02T08:00:00'' \<rparr>"

definition demo_processor :: processor where
  "demo_processor = \<lparr> api_key = Some ''key'', provider = ''google'' \<rparr>"

definition demo_run :: run where
  "demo_run = \<lparr> run_world = init_world 1000, run_saved = [] \<rparr>"

definition demo_fields :: "(string \<times> json) list" where
  "demo_fields =
     [(''total_emails'', JInt 2),
      (''analysis_timestamp'', JStr ''2025-01-02T08:00:00''),
      (''comprehensive_summary'', JStr ''All clear.''),
      (''high_priority_emails'', JArr []),
      (''action_items'', JArr []),
      (''email_categories'', JObj []),
      (''processing_notes'', JStr []),
      (''raw_emails'', JArr (map email_json demo_emails))]"

definition demo_analysis :: json where
  "demo_analysis = JObj demo_fields"

lemma demo_emails_parsed:
  "parse_extracted_file (env_files demo_env) ''emails_extracted.txt'' = demo_emails"
  by code_simp

lemma demo_batch:
  "fst (process_all_emails_batch demo_env demo_processor (init_world 1000) demo_emails)
     = Inr demo_analysis"
  by code_simp

theorem process_emails_from_file_returns_list_or_mapping_witness:
  "truthy_str (api_key demo_processor)
   \<and> parse_extracted_file (env_files demo_env) ''emails_extracted.txt'' = demo_emails
   \<and> fst (process_emails_from_file demo_env demo_processor demo_run ''emails_extracted.txt'' None)
       = Inr demo_analysis
   \<and> is_mapping demo_analysis
   \<and> fst (process_emails_from_file demo_env (demo_processor\<lparr>api_key := None\<rparr>) demo_run
            ''emails_extracted.txt'' None)
       = Inr (JArr [])"
proof -
  have k: "truthy_str (api_key demo_processor)" by (simp add: demo_processor_def)
  have n: "demo_emails \<noteq> []" by (simp add: demo_emails_def)
  have w: "run_world demo_run = init_world 1000" by (simp add: demo_run_def)
  from process_emails_from_file_returns_list_or_mapping
         [of demo_env demo_processor demo_run "''emails_extracted.txt''" None]
       process_emails_from_file_returns_list_or_mapping
         [of demo_env "demo_processor\<lparr>api_key := None\<rparr>" demo_run "''emails_extracted.txt''" None]
       k n w demo_emails_parsed demo_batch
  show ?thesis by simp
qed

section \<open>The report renderer\<close>






















text \<open>The conversions of an f-string, \<^verbatim>\<open>str()\<close>, and \<^verbatim>\<open>str.title()\<close> belong to Python:
  the renderer takes them as the parameters \<open>str_of\<close> and \<open>title_of\<close>.\<close>













section \<open>Conversions for concrete inputs\<close>






section \<open>Properties of the report renderer\<close>








end
